theory Spec2Isabelle
  imports Main
begin

section \<open>The order saga (\<^verbatim>\<open>OrderSaga.processOrder\<close>)\<close>

subsection \<open>Data\<close>

text \<open>
  Modelled from the spec: the type \<^verbatim>\<open>CreateOrderRequest\<close> is not declared in the
  repository. The request carries the requesting user, the line items (product, quantity,
  unit price), the shipping address and the payment instruction (method reference, amount,
  currency). \<^verbatim>\<open>processOrder\<close> reads \<^verbatim>\<open>orderRequest.items\<close> and
  \<^verbatim>\<open>orderRequest.payment\<close> and spreads the whole request into the order fields.
\<close>

record line_item =
  item_productId :: string
  item_quantity :: nat
  item_unitPrice :: int

record payment_instruction =
  methodRef :: string
  amount :: int
  currency :: string

record CreateOrderRequest =
  userId :: string
  items :: "line_item list"
  shippingAddress :: string
  payment :: payment_instruction

text \<open>
  What the collaborators return. The coordinator reads one field of each result, its
  \<^verbatim>\<open>id\<close>; the order object is also handed on to the notification service and returned.
\<close>

record reservation =
  reservation_id :: string

record payment_result =
  payment_id :: string

record order =
  order_id :: string

text \<open>
  The argument of \<^verbatim>\<open>orderRepository.create\<close>:
  \<^verbatim>\<open>{ ...orderRequest, inventoryReservationId: inventoryReservation.id, paymentId: payment.id }\<close>.
\<close>

record order_fields =
  request :: CreateOrderRequest
  inventoryReservationId :: string
  paymentId :: string

text \<open>
  A collaborator call either returns or throws; the thrown value is kept as it is
  (a string here). Every collaborator may read and change the outside world \<open>'w\<close>.
\<close>

type_synonym thrown = string

record 'w services =
  inventoryService_reserve :: "line_item list \<Rightarrow> 'w \<Rightarrow> (thrown + reservation) \<times> 'w"
  inventoryService_cancelReservation :: "string \<Rightarrow> 'w \<Rightarrow> (thrown + unit) \<times> 'w"
  paymentService_charge :: "payment_instruction \<Rightarrow> 'w \<Rightarrow> (thrown + payment_result) \<times> 'w"
  paymentService_refund :: "string \<Rightarrow> 'w \<Rightarrow> (thrown + unit) \<times> 'w"
  orderRepository_create :: "order_fields \<Rightarrow> 'w \<Rightarrow> (thrown + order) \<times> 'w"
  orderRepository_cancel :: "string \<Rightarrow> 'w \<Rightarrow> (thrown + unit) \<times> 'w"
  notificationService_sendOrderConfirmation :: "order \<Rightarrow> 'w \<Rightarrow> (thrown + unit) \<times> 'w"

text \<open>
  The collaborator calls of one run are logged in the order in which they are made, each
  with the way it ended.
\<close>

datatype call =
    InventoryReserve "line_item list"
  | InventoryCancelReservation string
  | PaymentCharge payment_instruction
  | PaymentRefund string
  | OrderCreate order_fields
  | OrderCancel string
  | NotificationSend order

datatype outcome = Returned | Threw thrown

type_synonym event = "call \<times> outcome"

text \<open>
  The four compensating closures that \<^verbatim>\<open>processOrder\<close> hands to
  \<^verbatim>\<open>saga.execute\<close>, each already applied to the result of its forward action:
  \<^verbatim>\<open>(reservation) => this.inventoryService.cancelReservation(reservation.id)\<close>,
  \<^verbatim>\<open>(payment) => this.paymentService.refund(payment.id)\<close>,
  \<^verbatim>\<open>(order) => this.orderRepository.cancel(order.id)\<close> and \<^verbatim>\<open>() => {}\<close>.
\<close>

datatype compensation =
    CancelReservation string
  | Refund string
  | CancelOrder string
  | NoCompensation

datatype saga_status = InProgress | Committed | RolledBack | RollbackFailed

text \<open>
  The state of one run: the outside world, the log of collaborator calls, and the fields
  of the \<^verbatim>\<open>SagaTransaction\<close> object (the compensations of the steps that succeeded, most
  recent first; the overall status; the error that made a step fail).
\<close>

record 'w run =
  world :: 'w
  events :: "event list"
  steps :: "compensation list"
  status :: saga_status
  failure :: "thrown option"

text \<open>
  What the promise returned by \<^verbatim>\<open>processOrder\<close> settles to. It resolves to
  \<^verbatim>\<open>{ success: true, order }\<close> or \<^verbatim>\<open>{ success: false, error }\<close>; it rejects when an
  exception leaves the \<^verbatim>\<open>catch\<close> block, which only \<^verbatim>\<open>saga.rollback()\<close> can raise.
\<close>

datatype OrderResult = Success order | Failure thrown

datatype saga_error = CompensationError (original: "thrown option") (compensation_failure: thrown)

subsection \<open>Collaborator calls\<close>

definition outcome_of :: "thrown + 'r \<Rightarrow> outcome" where
  "outcome_of r = (case r of Inl e \<Rightarrow> Threw e | Inr v \<Rightarrow> Returned)"

definition invoke ::
  "call \<Rightarrow> ('w \<Rightarrow> (thrown + 'r) \<times> 'w) \<Rightarrow> 'w run \<Rightarrow> (thrown + 'r) \<times> 'w run" where
  "invoke c f s =
     (case f (world s) of
        (r, w') \<Rightarrow> (r, s\<lparr>world := w', events := events s @ [(c, outcome_of r)]\<rparr>))"

definition calls :: "'w run \<Rightarrow> call list" where
  "calls s = map fst (events s)"

definition compensate :: "'w services \<Rightarrow> compensation \<Rightarrow> 'w run \<Rightarrow> (thrown + unit) \<times> 'w run" where
  "compensate sv c s =
     (case c of
        CancelReservation rid \<Rightarrow>
          invoke (InventoryCancelReservation rid) (inventoryService_cancelReservation sv rid) s
      | Refund pid \<Rightarrow> invoke (PaymentRefund pid) (paymentService_refund sv pid) s
      | CancelOrder oid \<Rightarrow> invoke (OrderCancel oid) (orderRepository_cancel sv oid) s
      | NoCompensation \<Rightarrow> (Inr (), s))"

subsection \<open>The saga transaction\<close>

text \<open>
  Modelled from the spec: the class \<^verbatim>\<open>SagaTransaction\<close> (\<^verbatim>\<open>execute\<close>, \<^verbatim>\<open>commit\<close>,
  \<^verbatim>\<open>rollback\<close>) is not in the repository; only its caller \<^verbatim>\<open>processOrder\<close> is.
  \<^verbatim>\<open>execute\<close> runs the forward action. When it succeeds the step is recorded as
  succeeded together with its compensating action and the result is returned. When it
  fails nothing is recorded for the step (a compensating action is never invoked for a
  step that never succeeded), the error is remembered as the one that triggered the
  rollback, and it is thrown on to the caller.
\<close>

definition new_saga :: "'w \<Rightarrow> 'w run" where
  "new_saga w = \<lparr>world = w, events = [], steps = [], status = InProgress, failure = None\<rparr>"

definition execute ::
  "('w run \<Rightarrow> (thrown + 'a) \<times> 'w run) \<Rightarrow> ('a \<Rightarrow> compensation) \<Rightarrow> 'w run \<Rightarrow> (thrown + 'a) \<times> 'w run" where
  "execute forward compensation s =
     (case forward s of
        (Inl e, s') \<Rightarrow> (Inl e, s'\<lparr>failure := Some e\<rparr>)
      | (Inr v, s') \<Rightarrow> (Inr v, s'\<lparr>steps := compensation v # steps s'\<rparr>))"

text \<open>
  Modelled from the spec: \<^verbatim>\<open>commit\<close> marks the run committed and calls no collaborator.
\<close>

definition commit :: "'w run \<Rightarrow> 'w run" where
  "commit s = s\<lparr>status := Committed\<rparr>"

text \<open>
  Modelled from the spec: \<^verbatim>\<open>rollback\<close> invokes the compensating action of every step that
  succeeded, in strict reverse order, each once, and then marks the run rolled-back. If a
  compensating action itself fails, the rollback stops there: no earlier step's
  compensation is attempted, the run is marked rollback-failed, and an error carrying both
  the triggering error and the compensation failure is raised.
\<close>

fun run_compensations ::
  "'w services \<Rightarrow> compensation list \<Rightarrow> 'w run \<Rightarrow> (thrown + unit) \<times> 'w run" where
  "run_compensations sv [] s = (Inr (), s)"
| "run_compensations sv (c # cs) s =
     (case compensate sv c s of
        (Inl e, s') \<Rightarrow> (Inl e, s'\<lparr>steps := c # cs\<rparr>)
      | (Inr u, s') \<Rightarrow> run_compensations sv cs (s'\<lparr>steps := cs\<rparr>))"

definition rollback :: "'w services \<Rightarrow> 'w run \<Rightarrow> (saga_error + unit) \<times> 'w run" where
  "rollback sv s =
     (case run_compensations sv (steps s) s of
        (Inl ce, s') \<Rightarrow> (Inl (CompensationError (failure s') ce), s'\<lparr>status := RollbackFailed\<rparr>)
      | (Inr u, s') \<Rightarrow> (Inr (), s'\<lparr>status := RolledBack\<rparr>))"

subsection \<open>The coordinator\<close>

text \<open>
  The \<^verbatim>\<open>catch (error)\<close> block: \<^verbatim>\<open>await saga.rollback(); return { success: false, error }\<close>.
  An exception raised by the rollback leaves the block, so the promise rejects with it.
\<close>

definition catch_block ::
  "'w services \<Rightarrow> thrown \<Rightarrow> 'w run \<Rightarrow> (saga_error + OrderResult) \<times> 'w run" where
  "catch_block sv e s =
     (case rollback sv s of
        (Inl ce, s') \<Rightarrow> (Inl ce, s')
      | (Inr u, s') \<Rightarrow> (Inr (Failure e), s'))"

definition processOrder ::
  "'w services \<Rightarrow> CreateOrderRequest \<Rightarrow> 'w \<Rightarrow> (saga_error + OrderResult) \<times> 'w run" where
  "processOrder sv orderRequest w =
     (case execute
             (invoke (InventoryReserve (items orderRequest))
                (inventoryService_reserve sv (items orderRequest)))
             (\<lambda>reservation. CancelReservation (reservation_id reservation))
             (new_saga w) of
        (Inl e, s1) \<Rightarrow> catch_block sv e s1
      | (Inr inventoryReservation, s1) \<Rightarrow>
     (case execute
             (invoke (PaymentCharge (payment orderRequest))
                (paymentService_charge sv (payment orderRequest)))
             (\<lambda>payment'. Refund (payment_id payment'))
             s1 of
        (Inl e, s2) \<Rightarrow> catch_block sv e s2
      | (Inr payment', s2) \<Rightarrow>
     (let fields = \<lparr>request = orderRequest,
                    inventoryReservationId = reservation_id inventoryReservation,
                    paymentId = payment_id payment'\<rparr>
      in case execute
             (invoke (OrderCreate fields) (orderRepository_create sv fields))
             (\<lambda>order. CancelOrder (order_id order))
             s2 of
        (Inl e, s3) \<Rightarrow> catch_block sv e s3
      | (Inr order, s3) \<Rightarrow>
     (case execute
             (invoke (NotificationSend order)
                (notificationService_sendOrderConfirmation sv order))
             (\<lambda>u. NoCompensation)
             s3 of
        (Inl e, s4) \<Rightarrow> catch_block sv e s4
      | (Inr u, s4) \<Rightarrow> (Inr (Success order), commit s4)))))"

subsection \<open>Reading the log\<close>

text \<open>
  The compensating calls, and the step (1 reserve, 2 charge, 3 create) each one undoes.
\<close>

fun compensated_step :: "call \<Rightarrow> nat option" where
  "compensated_step (InventoryCancelReservation rid) = Some 1"
| "compensated_step (PaymentRefund pid) = Some 2"
| "compensated_step (OrderCancel oid) = Some 3"
| "compensated_step (InventoryReserve its) = None"
| "compensated_step (PaymentCharge p) = None"
| "compensated_step (OrderCreate f) = None"
| "compensated_step (NotificationSend ord) = None"

fun is_release :: "call \<Rightarrow> bool" where
  "is_release (InventoryCancelReservation rid) = True"
| "is_release c = False"

fun is_refund :: "call \<Rightarrow> bool" where
  "is_refund (PaymentRefund pid) = True"
| "is_refund c = False"

fun is_charge :: "call \<Rightarrow> bool" where
  "is_charge (PaymentCharge p) = True"
| "is_charge c = False"

fun is_order_create :: "call \<Rightarrow> bool" where
  "is_order_create (OrderCreate f) = True"
| "is_order_create c = False"

fun is_order_cancel :: "call \<Rightarrow> bool" where
  "is_order_cancel (OrderCancel oid) = True"
| "is_order_cancel c = False"

definition count_calls :: "(call \<Rightarrow> bool) \<Rightarrow> 'w run \<Rightarrow> nat" where
  "count_calls P s = length (filter P (calls s))"

subsection \<open>Concrete collaborators\<close>

text \<open>
  Collaborators for concrete runs: the world counts the calls made so far, the operations
  listed in \<open>failing\<close> throw, the others return fixed results (the reservation id is a
  parameter).
\<close>

datatype operation =
  OpReserve | OpCancelReservation | OpCharge | OpRefund | OpCreate | OpCancel | OpSend

definition respond :: "operation list \<Rightarrow> operation \<Rightarrow> thrown \<Rightarrow> 'r \<Rightarrow> nat \<Rightarrow> (thrown + 'r) \<times> nat" where
  "respond failing op e v w = (if op \<in> set failing then Inl e else Inr v, Suc w)"

definition demo_services :: "string \<Rightarrow> operation list \<Rightarrow> nat services" where
  "demo_services rid failing =
     \<lparr>inventoryService_reserve =
        (\<lambda>its. respond failing OpReserve ''out of stock'' \<lparr>reservation_id = rid\<rparr>),
      inventoryService_cancelReservation =
        (\<lambda>r. respond failing OpCancelReservation ''release failed'' ()),
      paymentService_charge =
        (\<lambda>p. respond failing OpCharge ''card declined'' \<lparr>payment_id = ''pay-1''\<rparr>),
      paymentService_refund = (\<lambda>p. respond failing OpRefund ''refund failed'' ()),
      orderRepository_create =
        (\<lambda>f. respond failing OpCreate ''store unavailable'' \<lparr>order_id = ''ord-1''\<rparr>),
      orderRepository_cancel = (\<lambda>oid. respond failing OpCancel ''cancel failed'' ()),
      notificationService_sendOrderConfirmation =
        (\<lambda>ord. respond failing OpSend ''smtp down'' ())\<rparr>"

definition demo_payment :: payment_instruction where
  "demo_payment = \<lparr>methodRef = ''card-1'', amount = 4200, currency = ''USD''\<rparr>"

definition demo_items :: "line_item list" where
  "demo_items =
     [\<lparr>item_productId = ''p1'', item_quantity = 1, item_unitPrice = 1000\<rparr>,
      \<lparr>item_productId = ''p2'', item_quantity = 2, item_unitPrice = 1100\<rparr>,
      \<lparr>item_productId = ''p3'', item_quantity = 1, item_unitPrice = 1000\<rparr>]"

definition demo_request :: CreateOrderRequest where
  "demo_request =
     \<lparr>userId = ''u1'', items = demo_items, shippingAddress = ''1 Main St'',
      payment = demo_payment\<rparr>"

definition demo_fields :: "string \<Rightarrow> order_fields" where
  "demo_fields rid =
     \<lparr>request = demo_request, inventoryReservationId = rid, paymentId = ''pay-1''\<rparr>"





section \<open>The application state reducer (\<^verbatim>\<open>appReducer\<close>)\<close>

text \<open>
  \<^verbatim>\<open>Product\<close> has many fields; the reducer reads \<^verbatim>\<open>product.id\<close> only, so the others
  are kept together as \<open>'d\<close>. \<^verbatim>\<open>User\<close> and \<^verbatim>\<open>ProductVariant\<close> are never inspected
  (\<open>'u\<close>, \<open>'v\<close>). A quantity is a JavaScript \<^verbatim>\<open>number\<close>: the type \<open>'n\<close> of numbers and the
  operation that \<^verbatim>\<open>item.quantity + action.payload.quantity\<close> computes on them are
  parameters of the model, so nothing below depends on how numbers add (rounding,
  fractions and \<^verbatim>\<open>NaN\<close> included).
\<close>

record 'd Product =
  product_id :: string
  product_details :: 'd

record ('d, 'v, 'n) CartItem =
  item_id :: string
  productId :: string
  product :: "'d Product"
  quantity :: 'n
  variant :: "'v option"
  addedAt :: string

record ('u, 'd, 'v, 'n) AppState =
  user :: "'u option"
  cart :: "('d, 'v, 'n) CartItem list"
  isAuthenticated :: bool
  loading :: bool
  error :: "string option"

datatype ('u, 'd, 'v, 'n) AppAction =
    SET_USER "'u option"
  | SET_CART "('d, 'v, 'n) CartItem list"
  | ADD_TO_CART "'d Product" 'n
  | UPDATE_CART_ITEM string 'n
  | REMOVE_FROM_CART string
  | CLEAR_CART
  | SET_LOADING bool
  | SET_ERROR "string option"

text \<open>
  The reducer reads the clock when it builds a new cart item:
  \<^verbatim>\<open>Date.now().toString()\<close> for the id and \<^verbatim>\<open>new Date().toISOString()\<close> for
  \<^verbatim>\<open>addedAt\<close>. Both readings are inputs of the model.
\<close>

record clock =
  date_now_toString :: string
  date_toISOString :: string

fun appReducer ::
  "('n \<Rightarrow> 'n \<Rightarrow> 'n) \<Rightarrow> clock \<Rightarrow> ('u, 'd, 'v, 'n) AppState \<Rightarrow> ('u, 'd, 'v, 'n) AppAction
     \<Rightarrow> ('u, 'd, 'v, 'n) AppState" where
  "appReducer number_plus clk state (SET_USER payload) =
     state\<lparr>user := payload, isAuthenticated := (payload \<noteq> None)\<rparr>"
| "appReducer number_plus clk state (SET_CART payload) = state\<lparr>cart := payload\<rparr>"
| "appReducer number_plus clk state (ADD_TO_CART payload_product payload_quantity) =
     (case find (\<lambda>item. productId item = product_id payload_product) (cart state) of
        Some existingItem \<Rightarrow>
          state\<lparr>cart :=
            map (\<lambda>item. if item_id item = item_id existingItem
                         then item\<lparr>quantity := number_plus (quantity item) payload_quantity\<rparr>
                         else item)
              (cart state)\<rparr>
      | None \<Rightarrow>
          (let newItem =
                 \<lparr>item_id = date_now_toString clk,
                  productId = product_id payload_product,
                  product = payload_product,
                  quantity = payload_quantity,
                  variant = None,
                  addedAt = date_toISOString clk\<rparr>
           in state\<lparr>cart := cart state @ [newItem]\<rparr>))"
| "appReducer number_plus clk state (UPDATE_CART_ITEM payload_id payload_quantity) =
     state\<lparr>cart :=
       map (\<lambda>item. if item_id item = payload_id
                    then item\<lparr>quantity := payload_quantity\<rparr>
                    else item)
         (cart state)\<rparr>"
| "appReducer number_plus clk state (REMOVE_FROM_CART payload) =
     state\<lparr>cart := filter (\<lambda>item. item_id item \<noteq> payload) (cart state)\<rparr>"
| "appReducer number_plus clk state CLEAR_CART = state\<lparr>cart := []\<rparr>"
| "appReducer number_plus clk state (SET_LOADING payload) = state\<lparr>loading := payload\<rparr>"
| "appReducer number_plus clk state (SET_ERROR payload) = state\<lparr>error := payload\<rparr>"

text \<open>
  A concrete clock, products and carts for concrete runs of the reducer. Their quantities
  are small integers, on which the addition of JavaScript numbers is integer addition.
\<close>

definition demo_clock :: clock where
  "demo_clock =
     \<lparr>date_now_toString = ''1700000000000'', date_toISOString = ''2023-11-14T22:13:20.000Z''\<rparr>"

definition demo_product :: "string \<Rightarrow> unit Product" where
  "demo_product pid = \<lparr>product_id = pid, product_details = ()\<rparr>"

definition demo_state :: "(unit, unit, unit, int) AppState" where
  "demo_state =
     \<lparr>user = None, cart = [], isAuthenticated = False, loading = False, error = None\<rparr>"

definition demo_cart_state :: "(unit, unit, unit, int) AppState" where
  "demo_cart_state =
     appReducer (+) demo_clock
       (appReducer (+) demo_clock demo_state (ADD_TO_CART (demo_product ''p1'') 1))
       (ADD_TO_CART (demo_product ''p2'') 5)"

definition demo_item :: "string \<Rightarrow> string \<Rightarrow> int \<Rightarrow> (unit, unit, int) CartItem" where
  "demo_item iid pid q =
     \<lparr>item_id = iid, productId = pid, product = demo_product pid, quantity = q,
      variant = None, addedAt = ''2023-11-14T22:13:20.000Z''\<rparr>"

definition demo_shared_id_state :: "(unit, unit, unit, int) AppState" where
  "demo_shared_id_state =
     demo_state\<lparr>cart := [demo_item ''1'' ''p1'' 1, demo_item ''2'' ''p2'' 5,
                         demo_item ''2'' ''p3'' 4]\<rparr>"

section \<open>Properties of the order saga\<close>

subsection \<open>Symbolic execution\<close>

lemmas saga_defs =
  processOrder_def execute_def invoke_def catch_block_def rollback_def compensate_def
  new_saga_def commit_def outcome_of_def Let_def

lemmas demo_defs =
  demo_services_def respond_def demo_request_def demo_payment_def demo_items_def
  demo_fields_def

text \<open>
  Every run of \<^verbatim>\<open>processOrder\<close> ends in one of eleven ways: one per forward step that
  can fail, times the place where the rollback stops, plus the run in which nothing fails.
\<close>

lemma processOrder_shapes:
  "case processOrder sv req w of (r, s) \<Rightarrow>
     (\<exists>e. events s = [(InventoryReserve (items req), Threw e)]
          \<and> r = Inr (Failure e) \<and> status s = RolledBack)
   \<or> (\<exists>e rid. events s =
             [(InventoryReserve (items req), Returned), (PaymentCharge (payment req), Threw e),
              (InventoryCancelReservation rid, Returned)]
          \<and> r = Inr (Failure e) \<and> status s = RolledBack)
   \<or> (\<exists>e rid ce. events s =
             [(InventoryReserve (items req), Returned), (PaymentCharge (payment req), Threw e),
              (InventoryCancelReservation rid, Threw ce)]
          \<and> r = Inl (CompensationError (Some e) ce) \<and> status s = RollbackFailed)
   \<or> (\<exists>e f ce. events s =
             [(InventoryReserve (items req), Returned), (PaymentCharge (payment req), Returned),
              (OrderCreate f, Threw e), (PaymentRefund (paymentId f), Threw ce)]
          \<and> r = Inl (CompensationError (Some e) ce) \<and> status s = RollbackFailed)
   \<or> (\<exists>e f ce. events s =
             [(InventoryReserve (items req), Returned), (PaymentCharge (payment req), Returned),
              (OrderCreate f, Threw e), (PaymentRefund (paymentId f), Returned),
              (InventoryCancelReservation (inventoryReservationId f), Threw ce)]
          \<and> r = Inl (CompensationError (Some e) ce) \<and> status s = RollbackFailed)
   \<or> (\<exists>e f. events s =
             [(InventoryReserve (items req), Returned), (PaymentCharge (payment req), Returned),
              (OrderCreate f, Threw e), (PaymentRefund (paymentId f), Returned),
              (InventoryCancelReservation (inventoryReservationId f), Returned)]
          \<and> r = Inr (Failure e) \<and> status s = RolledBack)
   \<or> (\<exists>e f ord ce. events s =
             [(InventoryReserve (items req), Returned), (PaymentCharge (payment req), Returned),
              (OrderCreate f, Returned), (NotificationSend ord, Threw e),
              (OrderCancel (order_id ord), Threw ce)]
          \<and> r = Inl (CompensationError (Some e) ce) \<and> status s = RollbackFailed)
   \<or> (\<exists>e f ord ce. events s =
             [(InventoryReserve (items req), Returned), (PaymentCharge (payment req), Returned),
              (OrderCreate f, Returned), (NotificationSend ord, Threw e),
              (OrderCancel (order_id ord), Returned), (PaymentRefund (paymentId f), Threw ce)]
          \<and> r = Inl (CompensationError (Some e) ce) \<and> status s = RollbackFailed)
   \<or> (\<exists>e f ord ce. events s =
             [(InventoryReserve (items req), Returned), (PaymentCharge (payment req), Returned),
              (OrderCreate f, Returned), (NotificationSend ord, Threw e),
              (OrderCancel (order_id ord), Returned), (PaymentRefund (paymentId f), Returned),
              (InventoryCancelReservation (inventoryReservationId f), Threw ce)]
          \<and> r = Inl (CompensationError (Some e) ce) \<and> status s = RollbackFailed)
   \<or> (\<exists>e f ord. events s =
             [(InventoryReserve (items req), Returned), (PaymentCharge (payment req), Returned),
              (OrderCreate f, Returned), (NotificationSend ord, Threw e),
              (OrderCancel (order_id ord), Returned), (PaymentRefund (paymentId f), Returned),
              (InventoryCancelReservation (inventoryReservationId f), Returned)]
          \<and> r = Inr (Failure e) \<and> status s = RolledBack)
   \<or> (\<exists>f ord. events s =
             [(InventoryReserve (items req), Returned), (PaymentCharge (payment req), Returned),
              (OrderCreate f, Returned), (NotificationSend ord, Returned)]
          \<and> r = Inr (Success ord) \<and> status s = Committed)"
  by (simp add: saga_defs split: prod.splits sum.splits)

subsection \<open>Concrete runs\<close>

lemma demo_run_all_succeed:
  "processOrder (demo_services rid []) demo_request 0 =
     (Inr (Success \<lparr>order_id = ''ord-1''\<rparr>),
      \<lparr>world = 4,
       events = [(InventoryReserve demo_items, Returned), (PaymentCharge demo_payment, Returned),
                 (OrderCreate (demo_fields rid), Returned),
                 (NotificationSend \<lparr>order_id = ''ord-1''\<rparr>, Returned)],
       steps = [NoCompensation, CancelOrder ''ord-1'', Refund ''pay-1'', CancelReservation rid],
       status = Committed, failure = None\<rparr>)"
  by (simp add: saga_defs demo_defs)

lemma demo_run_charge_release_fail:
  "processOrder (demo_services ''res-1'' [OpCharge, OpCancelReservation]) demo_request 0 =
     (Inl (CompensationError (Some ''card declined'') ''release failed''),
      \<lparr>world = 3,
       events = [(InventoryReserve demo_items, Returned),
                 (PaymentCharge demo_payment, Threw ''card declined''),
                 (InventoryCancelReservation ''res-1'', Threw ''release failed'')],
       steps = [CancelReservation ''res-1''],
       status = RollbackFailed, failure = Some ''card declined''\<rparr>)"
  by (simp add: saga_defs demo_defs)

lemma demo_run_create_fails:
  "processOrder (demo_services ''res-1'' [OpCreate]) demo_request 0 =
     (Inr (Failure ''store unavailable''),
      \<lparr>world = 5,
       events = [(InventoryReserve demo_items, Returned), (PaymentCharge demo_payment, Returned),
                 (OrderCreate (demo_fields ''res-1''), Threw ''store unavailable''),
                 (PaymentRefund ''pay-1'', Returned),
                 (InventoryCancelReservation ''res-1'', Returned)],
       steps = [], status = RolledBack, failure = Some ''store unavailable''\<rparr>)"
  by (simp add: saga_defs demo_defs)

lemma demo_run_create_refund_fail:
  "processOrder (demo_services ''res-1'' [OpCreate, OpRefund]) demo_request 0 =
     (Inl (CompensationError (Some ''store unavailable'') ''refund failed''),
      \<lparr>world = 4,
       events = [(InventoryReserve demo_items, Returned), (PaymentCharge demo_payment, Returned),
                 (OrderCreate (demo_fields ''res-1''), Threw ''store unavailable''),
                 (PaymentRefund ''pay-1'', Threw ''refund failed'')],
       steps = [Refund ''pay-1'', CancelReservation ''res-1''],
       status = RollbackFailed, failure = Some ''store unavailable''\<rparr>)"
  by (simp add: saga_defs demo_defs)

lemma demo_run_send_fails:
  "processOrder (demo_services ''res-1'' [OpSend]) demo_request 0 =
     (Inr (Failure ''smtp down''),
      \<lparr>world = 7,
       events = [(InventoryReserve demo_items, Returned), (PaymentCharge demo_payment, Returned),
                 (OrderCreate (demo_fields ''res-1''), Returned),
                 (NotificationSend \<lparr>order_id = ''ord-1''\<rparr>, Threw ''smtp down''),
                 (OrderCancel ''ord-1'', Returned),
                 (PaymentRefund ''pay-1'', Returned),
                 (InventoryCancelReservation ''res-1'', Returned)],
       steps = [], status = RolledBack, failure = Some ''smtp down''\<rparr>)"
  by (simp add: saga_defs demo_defs)

subsection \<open>Runs in which every step succeeds\<close>




subsection \<open>Runs that fail at the reservation\<close>

text \<open>
  Claim C5. When the reservation fails, \<^verbatim>\<open>processOrder\<close> returns the failure result
  carrying the error the inventory service raised. The reserve call is the only call of
  the run: no payment, order store or notification call is made and no compensating
  action is invoked.
\<close>

theorem processOrder_reserve_fails:
  assumes "inventoryService_reserve sv (items req) w0 = (Inl e, w1)"
  shows "processOrder sv req w0 =
     (Inr (Failure e),
      \<lparr>world = w1, events = [(InventoryReserve (items req), Threw e)], steps = [],
       status = RolledBack, failure = Some e\<rparr>)"
  using assms by (simp add: saga_defs)

theorem processOrder_reserve_fails_witness:
  "processOrder (demo_services ''res-1'' [OpReserve]) demo_request 0 =
     (Inr (Failure ''out of stock''),
      \<lparr>world = 1, events = [(InventoryReserve demo_items, Threw ''out of stock'')], steps = [],
       status = RolledBack, failure = Some ''out of stock''\<rparr>)"
  using processOrder_reserve_fails
          [of "demo_services ''res-1'' [OpReserve]" demo_request 0 "''out of stock''" 1]
  by (simp add: demo_defs)

subsection \<open>Runs that fail at the charge\<close>

text \<open>
  Claim C6, as stated, fails when the release call itself fails: the run then ends with
  the compensation error and not with the payment error.
\<close>

theorem processOrder_charge_fails_counterexample:
  "fst (processOrder (demo_services ''res-1'' [OpCharge, OpCancelReservation]) demo_request 0)
     = Inl (CompensationError (Some ''card declined'') ''release failed'')
   \<and> fst (processOrder (demo_services ''res-1'' [OpCharge, OpCancelReservation]) demo_request 0)
     \<noteq> Inr (Failure ''card declined'')"
  by (simp add: demo_run_charge_release_fail)

text \<open>
  Claim C6, amended. When the reservation succeeds and the charge fails, the reservation
  is released exactly once, with the reservation id that step 1 returned, and no order
  store or notification call is made: the log is reserve, charge, release. When that
  release succeeds, \<^verbatim>\<open>processOrder\<close> returns the failure result carrying the payment
  error and the run is rolled back.
\<close>

theorem processOrder_charge_fails:
  assumes "inventoryService_reserve sv (items req) w0 = (Inr res, w1)"
      and "paymentService_charge sv (payment req) w1 = (Inl e, w2)"
      and "inventoryService_cancelReservation sv (reservation_id res) w2 = (rl, w3)"
      and "processOrder sv req w0 = (r, s)"
  shows "events s =
           [(InventoryReserve (items req), Returned), (PaymentCharge (payment req), Threw e),
            (InventoryCancelReservation (reservation_id res), outcome_of rl)]
       \<and> (rl = Inr () \<longrightarrow> r = Inr (Failure e) \<and> status s = RolledBack)"
  using assms by (cases rl) (auto simp: saga_defs)

theorem processOrder_charge_fails_witness:
  "events (snd (processOrder (demo_services ''res-1'' [OpCharge]) demo_request 0)) =
     [(InventoryReserve demo_items, Returned), (PaymentCharge demo_payment, Threw ''card declined''),
      (InventoryCancelReservation ''res-1'', Returned)]
   \<and> fst (processOrder (demo_services ''res-1'' [OpCharge]) demo_request 0)
       = Inr (Failure ''card declined'')
   \<and> status (snd (processOrder (demo_services ''res-1'' [OpCharge]) demo_request 0)) = RolledBack"
  using processOrder_charge_fails
          [of "demo_services ''res-1'' [OpCharge]" demo_request 0 "\<lparr>reservation_id = ''res-1''\<rparr>" 1
              "''card declined''" 2 "Inr ()" 3
              "fst (processOrder (demo_services ''res-1'' [OpCharge]) demo_request 0)"
              "snd (processOrder (demo_services ''res-1'' [OpCharge]) demo_request 0)"]
  by (simp add: demo_defs outcome_of_def)

subsection \<open>Runs that fail at the order creation\<close>

text \<open>
  Claim C3, as stated, fails when the refund call itself fails: the reservation is then
  never released and the run ends with the compensation error.
\<close>

theorem processOrder_create_fails_counterexample:
  "calls (snd (processOrder (demo_services ''res-1'' [OpCreate, OpRefund]) demo_request 0)) =
     [InventoryReserve demo_items, PaymentCharge demo_payment, OrderCreate (demo_fields ''res-1''),
      PaymentRefund ''pay-1'']
   \<and> count_calls is_release
        (snd (processOrder (demo_services ''res-1'' [OpCreate, OpRefund]) demo_request 0)) = 0
   \<and> fst (processOrder (demo_services ''res-1'' [OpCreate, OpRefund]) demo_request 0)
       = Inl (CompensationError (Some ''store unavailable'') ''refund failed'')"
  by (simp add: demo_run_create_refund_fail calls_def count_calls_def)

text \<open>
  Claim C3, amended. When the reservation and the charge succeed and the order creation
  fails, the payment is refunded exactly once, first; when the refund succeeds the
  reservation is then released exactly once; and when both compensating calls succeed
  \<^verbatim>\<open>processOrder\<close> returns the failure result carrying the store error, the run being
  marked rolled-back after the two calls.
\<close>

theorem processOrder_create_fails:
  assumes "inventoryService_reserve sv (items req) w0 = (Inr res, w1)"
      and "paymentService_charge sv (payment req) w1 = (Inr pay, w2)"
      and "orderRepository_create sv
             \<lparr>request = req, inventoryReservationId = reservation_id res,
              paymentId = payment_id pay\<rparr> w2 = (Inl e, w3)"
      and "paymentService_refund sv (payment_id pay) w3 = (rf, w4)"
      and "inventoryService_cancelReservation sv (reservation_id res) w4 = (rl, w5)"
      and "processOrder sv req w0 = (r, s)"
  shows "events s =
           [(InventoryReserve (items req), Returned), (PaymentCharge (payment req), Returned),
            (OrderCreate \<lparr>request = req, inventoryReservationId = reservation_id res,
                         paymentId = payment_id pay\<rparr>, Threw e),
            (PaymentRefund (payment_id pay), outcome_of rf)]
           @ (if rf = Inr ()
              then [(InventoryCancelReservation (reservation_id res), outcome_of rl)] else [])
       \<and> (rf = Inr () \<and> rl = Inr () \<longrightarrow> r = Inr (Failure e) \<and> status s = RolledBack)"
  using assms by (cases rf; cases rl) (auto simp: saga_defs)

theorem processOrder_create_fails_witness:
  "events (snd (processOrder (demo_services ''res-1'' [OpCreate]) demo_request 0)) =
     [(InventoryReserve demo_items, Returned), (PaymentCharge demo_payment, Returned),
      (OrderCreate (demo_fields ''res-1''), Threw ''store unavailable''),
      (PaymentRefund ''pay-1'', Returned), (InventoryCancelReservation ''res-1'', Returned)]
   \<and> fst (processOrder (demo_services ''res-1'' [OpCreate]) demo_request 0)
       = Inr (Failure ''store unavailable'')
   \<and> status (snd (processOrder (demo_services ''res-1'' [OpCreate]) demo_request 0)) = RolledBack"
  using processOrder_create_fails
          [of "demo_services ''res-1'' [OpCreate]" demo_request 0 "\<lparr>reservation_id = ''res-1''\<rparr>" 1
              "\<lparr>payment_id = ''pay-1''\<rparr>" 2 "''store unavailable''" 3 "Inr ()" 4 "Inr ()" 5
              "fst (processOrder (demo_services ''res-1'' [OpCreate]) demo_request 0)"
              "snd (processOrder (demo_services ''res-1'' [OpCreate]) demo_request 0)"]
  by (simp add: demo_defs outcome_of_def)

subsection \<open>Runs that fail at the notification\<close>




subsection \<open>Runs in which a compensating call fails\<close>

text \<open>
  Claim C4. In every run in which a compensating call throws, that call is the last call
  of the run (the rollback halts there), no compensation of an earlier step appears in the
  log, the run is marked rollback-failed, and \<^verbatim>\<open>processOrder\<close> ends with a
  \<open>CompensationError\<close> that carries both the error of the forward step that triggered the
  rollback and the error of the compensating call. That error is raised, not returned as
  a failure result, so it cannot be taken for an ordinary failure.
\<close>

theorem compensation_failure_halts_rollback:
  assumes run: "processOrder sv req w = (r, s)"
      and failed: "(c, Threw ce) \<in> set (events s)"
      and comp: "compensated_step c = Some k"
  shows "last (events s) = (c, Threw ce)
       \<and> (\<forall>c' out j. (c', out) \<in> set (events s) \<and> compensated_step c' = Some j \<longrightarrow> k \<le> j)
       \<and> status s = RollbackFailed
       \<and> (\<exists>e c0. (c0, Threw e) \<in> set (events s) \<and> compensated_step c0 = None
                  \<and> r = Inl (CompensationError (Some e) ce))"
  using processOrder_shapes[where sv=sv and req=req and w=w, unfolded run prod.case] failed comp
  by (elim disjE exE conjE; simp) auto

theorem compensation_failure_halts_rollback_witness:
  "processOrder (demo_services ''res-1'' [OpCreate, OpRefund]) demo_request 0 =
     (Inl (CompensationError (Some ''store unavailable'') ''refund failed''),
      \<lparr>world = 4,
       events = [(InventoryReserve demo_items, Returned), (PaymentCharge demo_payment, Returned),
                 (OrderCreate (demo_fields ''res-1''), Threw ''store unavailable''),
                 (PaymentRefund ''pay-1'', Threw ''refund failed'')],
       steps = [Refund ''pay-1'', CancelReservation ''res-1''],
       status = RollbackFailed, failure = Some ''store unavailable''\<rparr>)
   \<and> compensated_step (PaymentRefund ''pay-1'') = Some 2
   \<and> last [(InventoryReserve demo_items, Returned), (PaymentCharge demo_payment, Returned),
            (OrderCreate (demo_fields ''res-1''), Threw ''store unavailable''),
            (PaymentRefund ''pay-1'', Threw ''refund failed'')]
       = (PaymentRefund ''pay-1'', Threw ''refund failed'')
   \<and> count_calls is_release
        (snd (processOrder (demo_services ''res-1'' [OpCreate, OpRefund]) demo_request 0)) = 0"
  using compensation_failure_halts_rollback
          [OF demo_run_create_refund_fail, of "PaymentRefund ''pay-1''" "''refund failed''" 2]
        demo_run_create_refund_fail
  by (simp add: count_calls_def calls_def)

subsection \<open>Compensations are invoked at most once, and only for succeeded steps\<close>

text \<open>
  Claim C7. In every run the log holds at most one release call, at most one refund call
  and at most one order cancel call, and each of them appears only if the forward call of
  its step (reserve, charge, create) returned in that run.
\<close>

theorem compensation_at_most_once:
  assumes run: "processOrder sv req w = (r, s)"
  shows "count_calls is_release s \<le> 1 \<and> count_calls is_refund s \<le> 1
       \<and> count_calls is_order_cancel s \<le> 1
       \<and> ((\<exists>rid out. (InventoryCancelReservation rid, out) \<in> set (events s))
            \<longrightarrow> (InventoryReserve (items req), Returned) \<in> set (events s))
       \<and> ((\<exists>pid out. (PaymentRefund pid, out) \<in> set (events s))
            \<longrightarrow> (PaymentCharge (payment req), Returned) \<in> set (events s))
       \<and> ((\<exists>oid out. (OrderCancel oid, out) \<in> set (events s))
            \<longrightarrow> (\<exists>f. (OrderCreate f, Returned) \<in> set (events s)))"
  using processOrder_shapes[where sv=sv and req=req and w=w, unfolded run prod.case]
  by (elim disjE exE conjE; simp add: count_calls_def calls_def)

theorem compensation_at_most_once_witness:
  "(InventoryCancelReservation ''res-1'', Returned)
      \<in> set (events (snd (processOrder (demo_services ''res-1'' [OpCreate]) demo_request 0)))
   \<and> (PaymentRefund ''pay-1'', Returned)
      \<in> set (events (snd (processOrder (demo_services ''res-1'' [OpCreate]) demo_request 0)))
   \<and> (InventoryReserve (items demo_request), Returned)
      \<in> set (events (snd (processOrder (demo_services ''res-1'' [OpCreate]) demo_request 0)))
   \<and> (PaymentCharge (payment demo_request), Returned)
      \<in> set (events (snd (processOrder (demo_services ''res-1'' [OpCreate]) demo_request 0)))
   \<and> count_calls is_release
        (snd (processOrder (demo_services ''res-1'' [OpCreate]) demo_request 0)) \<le> 1
   \<and> count_calls is_refund
        (snd (processOrder (demo_services ''res-1'' [OpCreate]) demo_request 0)) \<le> 1"
  using compensation_at_most_once[OF demo_run_create_fails] demo_run_create_fails
  by (simp add: demo_request_def)

subsection \<open>Calls on the order store\<close>

text \<open>
  Claim C8, as stated, fails: \<^verbatim>\<open>processOrder\<close> registers
  \<^verbatim>\<open>(order) => this.orderRepository.cancel(order.id)\<close> as the compensation of step 3, and
  the rollback invokes it when the notification fails after the order was created.
\<close>

theorem order_store_cancel_counterexample:
  "OrderCancel ''ord-1''
     \<in> set (calls (snd (processOrder (demo_services ''res-1'' [OpSend]) demo_request 0)))"
  by (simp add: demo_run_send_fails calls_def)

text \<open>
  Claim C8, amended. In every run the coordinator calls the order store's create at most
  once and the order store's cancel at most once, and it calls cancel exactly in the runs
  in which the notification call threw (after the order was created). In every other run
  the create of step 3 is its only order store call.
\<close>

theorem order_store_calls:
  assumes run: "processOrder sv req w = (r, s)"
  shows "count_calls is_order_create s \<le> 1 \<and> count_calls is_order_cancel s \<le> 1
       \<and> ((\<exists>oid out. (OrderCancel oid, out) \<in> set (events s))
            \<longleftrightarrow> (\<exists>ord e. (NotificationSend ord, Threw e) \<in> set (events s)))"
  using processOrder_shapes[where sv=sv and req=req and w=w, unfolded run prod.case]
  by (elim disjE exE conjE; simp add: count_calls_def calls_def)

theorem order_store_calls_witness:
  "count_calls is_order_create
     (snd (processOrder (demo_services ''res-1'' [OpSend]) demo_request 0)) = 1
   \<and> count_calls is_order_cancel
     (snd (processOrder (demo_services ''res-1'' [OpSend]) demo_request 0)) = 1
   \<and> (OrderCancel ''ord-1'', Returned)
       \<in> set (events (snd (processOrder (demo_services ''res-1'' [OpSend]) demo_request 0)))
   \<and> (NotificationSend \<lparr>order_id = ''ord-1''\<rparr>, Threw ''smtp down'')
       \<in> set (events (snd (processOrder (demo_services ''res-1'' [OpSend]) demo_request 0)))"
  using order_store_calls[OF demo_run_send_fails] demo_run_send_fails
  by (simp add: count_calls_def calls_def)

subsection \<open>What the charge call receives\<close>

text \<open>
  Claim C9, as stated, fails: the charge call is \<^verbatim>\<open>this.paymentService.charge(orderRequest.payment)\<close>,
  so it receives the payment instruction of the request and nothing else. Two runs whose
  reservations have different ids make the very same charge call; the reservation id
  reaches the order create call only.
\<close>

theorem charge_call_counterexample:
  "filter is_charge (calls (snd (processOrder (demo_services ''res-A'' []) demo_request 0)))
     = [PaymentCharge \<lparr>methodRef = ''card-1'', amount = 4200, currency = ''USD''\<rparr>]
   \<and> filter is_charge (calls (snd (processOrder (demo_services ''res-B'' []) demo_request 0)))
     = [PaymentCharge \<lparr>methodRef = ''card-1'', amount = 4200, currency = ''USD''\<rparr>]
   \<and> filter is_order_create (calls (snd (processOrder (demo_services ''res-A'' []) demo_request 0)))
     = [OrderCreate (demo_fields ''res-A'')]
   \<and> filter is_order_create (calls (snd (processOrder (demo_services ''res-B'' []) demo_request 0)))
     = [OrderCreate (demo_fields ''res-B'')]
   \<and> ''res-A'' \<noteq> ''res-B''"
  by (simp add: demo_run_all_succeed calls_def demo_payment_def)

text \<open>
  Claim C9, amended. In every run that reaches step 2 the charge call is made exactly once
  and receives exactly the payment instruction of the request (which holds the requested
  amount); the reservation id produced by step 1 is not passed to it. The reservation id
  is passed to the order create call, as \<^verbatim>\<open>inventoryReservationId\<close>.
\<close>

theorem charge_call_receives_payment_instruction:
  assumes reserve: "inventoryService_reserve sv (items req) w = (Inr res, w1)"
      and run: "processOrder sv req w = (r, s)"
  shows "filter is_charge (calls s) = [PaymentCharge (payment req)]
       \<and> (\<forall>f. OrderCreate f \<in> set (calls s) \<longrightarrow> inventoryReservationId f = reservation_id res)"
proof -
  have "case processOrder sv req w of
          (r, s) \<Rightarrow> filter is_charge (calls s) = [PaymentCharge (payment req)]
            \<and> (\<forall>f. OrderCreate f \<in> set (calls s)
                 \<longrightarrow> inventoryReservationId f = reservation_id res)"
    using reserve by (simp add: saga_defs calls_def split: prod.splits sum.splits)
  then show ?thesis by (simp add: run)
qed

theorem charge_call_receives_payment_instruction_witness:
  "filter is_charge (calls (snd (processOrder (demo_services ''res-A'' []) demo_request 0)))
     = [PaymentCharge (payment demo_request)]
   \<and> OrderCreate (demo_fields ''res-A'')
       \<in> set (calls (snd (processOrder (demo_services ''res-A'' []) demo_request 0)))
   \<and> inventoryReservationId (demo_fields ''res-A'') = ''res-A''"
proof -
  have reserve:
    "inventoryService_reserve (demo_services ''res-A'' []) (items demo_request) 0
       = (Inr \<lparr>reservation_id = ''res-A''\<rparr>, 1)"
    by (simp add: demo_defs)
  have run:
    "processOrder (demo_services ''res-A'' []) demo_request 0
       = (fst (processOrder (demo_services ''res-A'' []) demo_request 0),
          snd (processOrder (demo_services ''res-A'' []) demo_request 0))"
    by simp
  from charge_call_receives_payment_instruction[OF reserve run]
  show ?thesis
    by (simp add: demo_run_all_succeed calls_def demo_fields_def)
qed

section \<open>Properties of the reducer\<close>

text \<open>
  Claim C10, as stated, fails for carts in which two items share an id. The reducer finds
  the first item with the product's id and then updates every item whose \<^verbatim>\<open>id\<close> equals
  the id of that item. Two products added at the same reading of \<^verbatim>\<open>Date.now()\<close> get the
  same item id; adding the first product again then also raises the quantity of the other.
\<close>

theorem add_to_cart_counterexample:
  "map item_id (cart demo_cart_state) = [''1700000000000'', ''1700000000000'']
   \<and> map productId (cart demo_cart_state) = [''p1'', ''p2'']
   \<and> map quantity (cart demo_cart_state) = [1, 5]
   \<and> map productId
        (cart (appReducer (+) demo_clock demo_cart_state (ADD_TO_CART (demo_product ''p1'') 2)))
       = [''p1'', ''p2'']
   \<and> map quantity
        (cart (appReducer (+) demo_clock demo_cart_state (ADD_TO_CART (demo_product ''p1'') 2)))
       = [3, 7]"
  by (simp add: demo_cart_state_def demo_state_def demo_clock_def demo_product_def)

text \<open>
  Claim C10, amended. For every state and every \<^verbatim>\<open>ADD_TO_CART\<close> action: if the cart
  contains an item with the product's id, the reducer returns a cart of unchanged length in
  which every item whose \<^verbatim>\<open>id\<close> equals the id of the first such item has its quantity
  replaced by the sum of that quantity and the action's quantity, and every other item is
  unchanged; so when no other item shares the id of that first item, it is the one item
  that changes. Otherwise the reducer returns the cart with exactly one new item of the
  given product and quantity appended. In both cases \<^verbatim>\<open>user\<close>, \<^verbatim>\<open>isAuthenticated\<close>,
  \<^verbatim>\<open>loading\<close> and \<^verbatim>\<open>error\<close> are unchanged.
\<close>

theorem add_to_cart_updates_by_item_id:
  "(if \<exists>item \<in> set (cart s). productId item = product_id p
    then \<exists>j < length (cart s).
           productId (cart s ! j) = product_id p
         \<and> (\<forall>i < j. productId (cart s ! i) \<noteq> product_id p)
         \<and> length (cart (appReducer number_plus clk s (ADD_TO_CART p q))) = length (cart s)
         \<and> (\<forall>k < length (cart s).
               cart (appReducer number_plus clk s (ADD_TO_CART p q)) ! k
                 = (if item_id (cart s ! k) = item_id (cart s ! j)
                    then (cart s ! k)\<lparr>quantity := number_plus (quantity (cart s ! k)) q\<rparr>
                    else cart s ! k))
         \<and> ((\<forall>k < length (cart s). k \<noteq> j \<longrightarrow> item_id (cart s ! k) \<noteq> item_id (cart s ! j))
              \<longrightarrow> cart (appReducer number_plus clk s (ADD_TO_CART p q))
                    = (cart s)[j := (cart s ! j)\<lparr>quantity := number_plus (quantity (cart s ! j)) q\<rparr>])
    else \<exists>newItem. cart (appReducer number_plus clk s (ADD_TO_CART p q)) = cart s @ [newItem]
           \<and> product newItem = p \<and> productId newItem = product_id p
           \<and> quantity newItem = q)
   \<and> user (appReducer number_plus clk s (ADD_TO_CART p q)) = user s
   \<and> isAuthenticated (appReducer number_plus clk s (ADD_TO_CART p q)) = isAuthenticated s
   \<and> loading (appReducer number_plus clk s (ADD_TO_CART p q)) = loading s
   \<and> error (appReducer number_plus clk s (ADD_TO_CART p q)) = error s"
proof (cases "find (\<lambda>item. productId item = product_id p) (cart s)")
  case None
  then have "\<not> (\<exists>item \<in> set (cart s). productId item = product_id p)"
    by (simp add: find_None_iff)
  with None show ?thesis by (simp add: Let_def)
next
  case (Some ex)
  then obtain j where j: "j < length (cart s)" "productId (cart s ! j) = product_id p"
      "ex = cart s ! j" "\<forall>i < j. productId (cart s ! i) \<noteq> product_id p"
    by (auto simp: find_Some_iff)
  let ?upd = "\<lambda>item. if item_id item = item_id (cart s ! j)
                       then item\<lparr>quantity := number_plus (quantity item) q\<rparr> else item"
  have new_cart: "cart (appReducer number_plus clk s (ADD_TO_CART p q)) = map ?upd (cart s)"
    using Some j(3) by simp
  have found: "\<exists>item \<in> set (cart s). productId item = product_id p"
    using j(1,2) by (metis nth_mem)
  have pointwise: "\<forall>k < length (cart s).
      cart (appReducer number_plus clk s (ADD_TO_CART p q)) ! k
        = (if item_id (cart s ! k) = item_id (cart s ! j)
           then (cart s ! k)\<lparr>quantity := number_plus (quantity (cart s ! k)) q\<rparr>
           else cart s ! k)"
    unfolding new_cart by simp
  have single: "cart (appReducer number_plus clk s (ADD_TO_CART p q))
                  = (cart s)[j := (cart s ! j)\<lparr>quantity := number_plus (quantity (cart s ! j)) q\<rparr>]"
    if unshared: "\<forall>k < length (cart s). k \<noteq> j \<longrightarrow> item_id (cart s ! k) \<noteq> item_id (cart s ! j)"
  proof (rule nth_equalityI)
    show "length (cart (appReducer number_plus clk s (ADD_TO_CART p q)))
            = length ((cart s)[j := (cart s ! j)\<lparr>quantity := number_plus (quantity (cart s ! j)) q\<rparr>])"
      unfolding new_cart by simp
  next
    fix k
    assume "k < length (cart (appReducer number_plus clk s (ADD_TO_CART p q)))"
    then have k: "k < length (cart s)" unfolding new_cart by simp
    show "cart (appReducer number_plus clk s (ADD_TO_CART p q)) ! k
            = (cart s)[j := (cart s ! j)\<lparr>quantity := number_plus (quantity (cart s ! j)) q\<rparr>] ! k"
    proof (cases "k = j")
      case True
      then show ?thesis using j(1) unfolding new_cart by simp
    next
      case False
      then show ?thesis using k unshared unfolding new_cart by simp
    qed
  qed
  have "j < length (cart s)
      \<and> productId (cart s ! j) = product_id p
      \<and> (\<forall>i < j. productId (cart s ! i) \<noteq> product_id p)
      \<and> length (cart (appReducer number_plus clk s (ADD_TO_CART p q))) = length (cart s)
      \<and> (\<forall>k < length (cart s).
            cart (appReducer number_plus clk s (ADD_TO_CART p q)) ! k
              = (if item_id (cart s ! k) = item_id (cart s ! j)
                 then (cart s ! k)\<lparr>quantity := number_plus (quantity (cart s ! k)) q\<rparr>
                 else cart s ! k))
      \<and> ((\<forall>k < length (cart s). k \<noteq> j \<longrightarrow> item_id (cart s ! k) \<noteq> item_id (cart s ! j))
           \<longrightarrow> cart (appReducer number_plus clk s (ADD_TO_CART p q))
                 = (cart s)[j := (cart s ! j)\<lparr>quantity := number_plus (quantity (cart s ! j)) q\<rparr>])"
    using j(1,2,4) pointwise single unfolding new_cart by simp
  then have branch: "\<exists>j < length (cart s).
        productId (cart s ! j) = product_id p
      \<and> (\<forall>i < j. productId (cart s ! i) \<noteq> product_id p)
      \<and> length (cart (appReducer number_plus clk s (ADD_TO_CART p q))) = length (cart s)
      \<and> (\<forall>k < length (cart s).
            cart (appReducer number_plus clk s (ADD_TO_CART p q)) ! k
              = (if item_id (cart s ! k) = item_id (cart s ! j)
                 then (cart s ! k)\<lparr>quantity := number_plus (quantity (cart s ! k)) q\<rparr>
                 else cart s ! k))
      \<and> ((\<forall>k < length (cart s). k \<noteq> j \<longrightarrow> item_id (cart s ! k) \<noteq> item_id (cart s ! j))
           \<longrightarrow> cart (appReducer number_plus clk s (ADD_TO_CART p q))
                 = (cart s)[j := (cart s ! j)\<lparr>quantity := number_plus (quantity (cart s ! j)) q\<rparr>])"
    by blast
  have frame: "user (appReducer number_plus clk s (ADD_TO_CART p q)) = user s
      \<and> isAuthenticated (appReducer number_plus clk s (ADD_TO_CART p q)) = isAuthenticated s
      \<and> loading (appReducer number_plus clk s (ADD_TO_CART p q)) = loading s
      \<and> error (appReducer number_plus clk s (ADD_TO_CART p q)) = error s"
    using Some by simp
  from found branch frame show ?thesis by (simp only: if_True simp_thms)
qed

theorem add_to_cart_updates_by_item_id_witness:
  "cart (appReducer (+) demo_clock demo_shared_id_state (ADD_TO_CART (demo_product ''p1'') 2))
       = [demo_item ''1'' ''p1'' 3, demo_item ''2'' ''p2'' 5, demo_item ''2'' ''p3'' 4]
   \<and> cart (appReducer (+) demo_clock demo_shared_id_state (ADD_TO_CART (demo_product ''p2'') 2))
       = [demo_item ''1'' ''p1'' 1, demo_item ''2'' ''p2'' 7, demo_item ''2'' ''p3'' 6]
   \<and> cart (appReducer (+) demo_clock demo_shared_id_state (ADD_TO_CART (demo_product ''p4'') 4))
       = [demo_item ''1'' ''p1'' 1, demo_item ''2'' ''p2'' 5, demo_item ''2'' ''p3'' 4,
          demo_item ''1700000000000'' ''p4'' 4]
   \<and> user (appReducer (+) demo_clock demo_shared_id_state (ADD_TO_CART (demo_product ''p1'') 2))
       = user demo_shared_id_state"
  using add_to_cart_updates_by_item_id
          [of demo_shared_id_state "demo_product ''p1''" "(+)" demo_clock 2]
        add_to_cart_updates_by_item_id
          [of demo_shared_id_state "demo_product ''p2''" "(+)" demo_clock 2]
        add_to_cart_updates_by_item_id
          [of demo_shared_id_state "demo_product ''p4''" "(+)" demo_clock 4]
  by (simp add: demo_shared_id_state_def demo_item_def demo_state_def demo_clock_def
        demo_product_def)

end
